theory Spec2Isabelle
  imports Complex_Main
begin

section \<open>Values and exceptions\<close>

text \<open>
  The class \<open>BeamformingEvaluation\<close> of \<open>beam_eval/evaluation.py\<close> works on pandas
  objects. A \<open>pd.Series\<close> with its default positional index is the list of its samples,
  and the data of a \<open>pd.DataFrame\<close> the list of its columns. Samples are real numbers:
  rounding of floating-point arithmetic is not represented.
\<close>

type_synonym series = "real list"
type_synonym frame = "series list"

text \<open>
  A \<open>pd.DataFrame\<close> with its column labels. The labels are plain (an \<open>Index\<close>) or
  hierarchical (a \<open>MultiIndex\<close>). No operation of the class reads a plain label, so the
  plain labels are left out; hierarchical labels have two levels of integers and are
  kept with their columns, since \<open>DataFrame.__getitem__\<close> selects by them.
\<close>

datatype dataframe = Flat frame | Hierarchical "((int \<times> int) \<times> series) list"

text \<open>
  The exceptions an evaluation can end in. \<open>TypeError\<close> and \<open>AttributeError\<close> are
  Python's, \<open>ValueError\<close> is what pandas raises for the truth value of a Series, and
  \<open>IndexingError\<close> stands for the rejection by pandas of a key that is no column label
  (\<open>InvalidIndexError\<close>, \<open>KeyError\<close> or \<open>TypeError\<close>, depending on the versions of pandas
  and Python). \<open>DimensionError\<close> is the exception the specification names; no statement
  of the source raises it.
\<close>

datatype error = TypeError | ValueError | IndexingError | AttributeError | DimensionError

definition bindE :: "error + 'a \<Rightarrow> ('a \<Rightarrow> error + 'b) \<Rightarrow> error + 'b" where
  "bindE m f = (case m of Inl e \<Rightarrow> Inl e | Inr x \<Rightarrow> f x)"

text \<open>
  The three attributes computed from \<open>_projection\<close> hold \<open>None\<close> or a Python \<open>int\<close>:
  \<open>_projection\<close> returns the literal \<open>0\<close>, and the only operations applied to its
  results are \<open>+\<close> and \<open>-\<close> between such values.
\<close>

datatype scalar = PNone | PInt int

text \<open>Python's \<open>not x\<close> on such a value: \<open>None\<close> and \<open>0\<close> are false.\<close>

fun py_not :: "scalar \<Rightarrow> bool" where
  "py_not PNone = True"
| "py_not (PInt n) = (n = 0)"

text \<open>\<open>x + y\<close> and \<open>x - y\<close>; \<open>None\<close> supports neither.\<close>

fun py_add :: "scalar \<Rightarrow> scalar \<Rightarrow> error + scalar" where
  "py_add (PInt a) (PInt b) = Inr (PInt (a + b))"
| "py_add _ _ = Inl TypeError"

fun py_sub :: "scalar \<Rightarrow> scalar \<Rightarrow> error + scalar" where
  "py_sub (PInt a) (PInt b) = Inr (PInt (a - b))"
| "py_sub _ _ = Inl TypeError"

text \<open>
  A Series and an \<open>int\<close>: pandas applies the operation to every sample
  (\<open>Series.__sub__\<close>, and \<open>Series.__radd__\<close> for \<open>int + Series\<close>).
\<close>

fun series_sub :: "series \<Rightarrow> scalar \<Rightarrow> error + series" where
  "series_sub xs (PInt k) = Inr (map (\<lambda>x. x - real_of_int k) xs)"
| "series_sub xs PNone = Inl TypeError"

fun scalar_add_series :: "scalar \<Rightarrow> series \<Rightarrow> error + series" where
  "scalar_add_series (PInt k) xs = Inr (map (\<lambda>x. real_of_int k + x) xs)"
| "scalar_add_series PNone xs = Inl TypeError"

section \<open>The pandas operations the class calls\<close>

text \<open>
  The subscripts that occur in the source: \<open>[:n]\<close>, the full slice \<open>:\<close>, and a tuple of
  subscripts as in \<open>[:n, :]\<close>.
\<close>

datatype key = SliceTo nat | SliceAll | Tuple "key list"

text \<open>
  \<open>Series.__getitem__\<close>: a slice selects by position and never fails, also when the
  series is shorter than the bound. A tuple is looked up as one label of the index.
\<close>

fun series_getitem :: "series \<Rightarrow> key \<Rightarrow> error + series" where
  "series_getitem xs (SliceTo n) = Inr (take n xs)"
| "series_getitem xs SliceAll = Inr xs"
| "series_getitem xs (Tuple ks) = Inl IndexingError"

text \<open>
  A slice as one component of a key into hierarchical columns selects labels of its
  level, the bound included: \<open>:n\<close> the labels up to \<open>n\<close>, \<open>:\<close> all of them.
\<close>

fun is_slice :: "key \<Rightarrow> bool" where
  "is_slice (SliceTo n) = True"
| "is_slice SliceAll = True"
| "is_slice (Tuple ks) = False"

fun label_in_slice :: "key \<Rightarrow> int \<Rightarrow> bool" where
  "label_in_slice (SliceTo n) l = (l \<le> int n)"
| "label_in_slice SliceAll l = True"
| "label_in_slice (Tuple ks) l = False"

definition select_columns :: "((int \<times> int) \<times> series) list \<Rightarrow> key \<Rightarrow> key \<Rightarrow> frame" where
  "select_columns cols k0 k1 =
    map snd (filter (\<lambda>((a, b), xs). label_in_slice k0 a \<and> label_in_slice k1 b) cols)"

text \<open>
  \<open>DataFrame.__getitem__\<close>: a slice selects rows. Any other key selects columns, and a
  tuple is taken as a single column label. With plain labels a tuple of slices is looked
  up in the columns and never found, so the lookup raises. With hierarchical labels the
  components of the tuple are matched level by level (\<open>MultiIndex.get_loc\<close>): the result
  has every row of the columns whose labels the two slices select, under the labels of
  the level that is left. (Selecting rows and columns together is what \<open>.iloc\<close> and
  \<open>.loc\<close> are for, which the source does not use.)
\<close>

fun dataframe_getitem :: "dataframe \<Rightarrow> key \<Rightarrow> error + dataframe" where
  "dataframe_getitem (Flat cols) (SliceTo n) = Inr (Flat (map (take n) cols))"
| "dataframe_getitem (Hierarchical cols) (SliceTo n) =
     Inr (Hierarchical (map (\<lambda>(l, xs). (l, take n xs)) cols))"
| "dataframe_getitem f SliceAll = Inr f"
| "dataframe_getitem (Flat cols) (Tuple ks) = Inl IndexingError"
| "dataframe_getitem (Hierarchical cols) (Tuple ks) =
     (case ks of
        [k0, k1] \<Rightarrow>
          if is_slice k0 \<and> is_slice k1 then Inr (Flat (select_columns cols k0 k1))
          else Inl IndexingError
      | _ \<Rightarrow> Inl IndexingError)"

text \<open>\<open>Series.to_frame()\<close>: the frame whose only column is the series.\<close>

definition to_frame :: "series \<Rightarrow> dataframe" where
  "to_frame xs = Flat [xs]"

text \<open>
  \<open>pd.concat(frames, axis=1)\<close>: the columns of the frames, side by side. (The labels of the
  result are left out, and where the frames differ in their number of rows pandas fills
  the missing samples with NaN, which is not represented: the only consumer of the result
  is \<open>_projection\<close>, which ignores it.)
\<close>

fun columns_of :: "dataframe \<Rightarrow> frame" where
  "columns_of (Flat cols) = cols"
| "columns_of (Hierarchical cols) = map snd cols"

definition pd_concat_axis1 :: "dataframe list \<Rightarrow> frame" where
  "pd_concat_axis1 frames = concat (map columns_of frames)"

text \<open>
  What the parameter \<open>noise\<close> is bound to: a Series the caller passed, or the default of
  the signature, which is \<open>pd.Series\<close>, the class itself. Subscripting the class raises
  \<open>TypeError\<close>.
\<close>

datatype noise_value = SeriesObject series | SeriesClass

fun noise_getitem :: "noise_value \<Rightarrow> key \<Rightarrow> error + series" where
  "noise_getitem (SeriesObject xs) k = series_getitem xs k"
| "noise_getitem SeriesClass k = Inl TypeError"

section \<open>The class BeamformingEvaluation\<close>

text \<open>
  The attributes \<open>__init__\<close> assigns; \<open>priv_x\<close> is the source's \<open>_x\<close>. \<open>_e_artif\<close> holds \<open>None\<close>
  or the Series \<open>e_artif\<close> stored.
\<close>

record beamforming_evaluation =
  priv_e_artif :: "series option"
  priv_e_noise :: scalar
  priv_e_interf :: scalar
  priv_s_target :: scalar
  max_len :: nat
  noise :: dataframe
  input_signal :: dataframe
  estimated :: series
  interference :: dataframe

text \<open>
  \<open>__init__(self, estimated_source, real_source, interference=pd.DataFrame(),
  noise=pd.Series)\<close>. An omitted argument is \<open>None\<close> here and takes the default of the
  signature: the frame without columns, and the class \<open>pd.Series\<close>. The result is the
  initialised instance, or the exception that ended the initialiser.
\<close>

definition init ::
  "series \<Rightarrow> series \<Rightarrow> dataframe option \<Rightarrow> series option \<Rightarrow>
     error + beamforming_evaluation" where
  "init estimated_source real_source interference_arg noise_arg =
    (let interference_v = (case interference_arg of None \<Rightarrow> Flat [] | Some f \<Rightarrow> f);
         noise_v = (case noise_arg of None \<Rightarrow> SeriesClass | Some xs \<Rightarrow> SeriesObject xs);
         m = length estimated_source
     in bindE (series_getitem real_source (SliceTo m)) (\<lambda>r.
        bindE (dataframe_getitem interference_v (Tuple [SliceTo m, SliceAll])) (\<lambda>i.
        bindE (noise_getitem noise_v (SliceTo m)) (\<lambda>n.
          Inr \<lparr>priv_e_artif = None, priv_e_noise = PNone, priv_e_interf = PNone,
               priv_s_target = PNone, max_len = m, noise = to_frame n,
               input_signal = to_frame r, estimated = estimated_source,
               interference = i\<rparr>))))"

text \<open>\<open>_projection(signal, subspace)\<close>: the body is \<open>return 0\<close>.\<close>

definition projection :: "'a \<Rightarrow> 'b \<Rightarrow> scalar" where
  "projection signal subsp = PInt 0"

text \<open>
  The properties. Each returns its value together with the instance as the access
  leaves it. \<open>s_target\<close> has no statement that can raise.
\<close>

definition s_target :: "beamforming_evaluation \<Rightarrow> scalar \<times> beamforming_evaluation" where
  "s_target self =
    (let self1 = (if py_not (priv_s_target self)
                  then self\<lparr>priv_s_target := projection (estimated self) (input_signal self)\<rparr>
                  else self)
     in (priv_s_target self1, self1))"

definition e_interf :: "beamforming_evaluation \<Rightarrow> error + (scalar \<times> beamforming_evaluation)" where
  "e_interf self =
    (if py_not (priv_e_interf self)
     then (let all_inputs = pd_concat_axis1 [input_signal self, interference self];
               p = projection (input_signal self) all_inputs;
               (t, self1) = s_target self
           in bindE (py_sub p t) (\<lambda>v. Inr (v, self1\<lparr>priv_e_interf := v\<rparr>)))
     else Inr (priv_e_interf self, self))"

definition e_noise :: "beamforming_evaluation \<Rightarrow> error + (scalar \<times> beamforming_evaluation)" where
  "e_noise self =
    (if py_not (priv_e_noise self)
     then (let noised_inputs =
                 pd_concat_axis1 [input_signal self, interference self, noise self];
               noise_projection = projection (input_signal self) noised_inputs
           in bindE (e_interf self) (\<lambda>(i, self1).
              let (t, self2) = s_target self1
              in bindE (py_add i t) (\<lambda>s.
                 bindE (py_sub noise_projection s) (\<lambda>v.
                   Inr (v, self2\<lparr>priv_e_noise := v\<rparr>)))))
     else Inr (priv_e_noise self, self))"

text \<open>
  \<open>e_artif\<close> tests \<open>not self._e_artif\<close> as the others do. Once the attribute holds a
  Series the test itself raises: pandas refuses the truth value of a Series.
\<close>

definition e_artif :: "beamforming_evaluation \<Rightarrow> error + (series \<times> beamforming_evaluation)" where
  "e_artif self =
    (case priv_e_artif self of
       Some cached \<Rightarrow> Inl ValueError
     | None \<Rightarrow>
         bindE (e_noise self) (\<lambda>(n, self1).
         bindE (e_interf self1) (\<lambda>(i, self2).
         bindE (py_add n i) (\<lambda>s.
         let (t, self3) = s_target self2
         in bindE (py_add s t) (\<lambda>s'.
            bindE (series_sub (estimated self) s') (\<lambda>v.
              Inr (v, self3\<lparr>priv_e_artif := Some v\<rparr>)))))))"

text \<open>
  The names an instance answers to: the attributes \<open>__init__\<close> assigns and the names the
  class body defines. Any other name raises \<open>AttributeError\<close>.
\<close>

definition instance_attributes :: "string list" where
  "instance_attributes =
    [''_e_artif'', ''_e_noise'', ''_e_interf'', ''_s_target'', ''max_len'', ''noise'',
     ''input_signal'', ''estimated'', ''interference'']"

definition class_attributes :: "string list" where
  "class_attributes =
    [''__init__'', ''s_target'', ''e_interf'', ''e_noise'', ''e_artif'', ''_projection'']"

definition has_attribute :: "string \<Rightarrow> bool" where
  "has_attribute name = (name \<in> set (instance_attributes @ class_attributes))"

section \<open>States of an instance\<close>

text \<open>
  An instance is fresh when the four memo attributes are \<open>None\<close>, as the first four
  statements of \<open>__init__\<close> leave them. Its reachable states are the fresh one and those
  the accesses to its properties lead to.
\<close>

definition fresh :: "beamforming_evaluation \<Rightarrow> bool" where
  "fresh self =
    (priv_e_artif self = None \<and> priv_e_noise self = PNone \<and>
     priv_e_interf self = PNone \<and> priv_s_target self = PNone)"

inductive reachable :: "beamforming_evaluation \<Rightarrow> bool" where
  start: "fresh self \<Longrightarrow> reachable self"
| after_s_target: "reachable self \<Longrightarrow> s_target self = (v, self') \<Longrightarrow> reachable self'"
| after_e_interf: "reachable self \<Longrightarrow> e_interf self = Inr (v, self') \<Longrightarrow> reachable self'"
| after_e_noise: "reachable self \<Longrightarrow> e_noise self = Inr (v, self') \<Longrightarrow> reachable self'"
| after_e_artif: "reachable self \<Longrightarrow> e_artif self = Inr (w, self') \<Longrightarrow> reachable self'"

text \<open>
  The expression \<open>target + interference_error + noise_error + artifact_error\<close> of the
  decomposition identity, evaluated left to right as Python does.
\<close>

definition decomposition_sum :: "scalar \<Rightarrow> scalar \<Rightarrow> scalar \<Rightarrow> series \<Rightarrow> error + series" where
  "decomposition_sum t i n a =
    bindE (py_add t i) (\<lambda>x. bindE (py_add x n) (\<lambda>y. scalar_add_series y a))"

text \<open>
  What the memo attributes hold in a reachable state: \<open>None\<close> or the value the property
  stores, which is \<open>0\<close> for the three projections and the estimated signal for
  \<open>_e_artif\<close>.
\<close>

definition memo_inv :: "beamforming_evaluation \<Rightarrow> bool" where
  "memo_inv self =
    ((priv_s_target self = PNone \<or> priv_s_target self = PInt 0) \<and>
     (priv_e_interf self = PNone \<or> priv_e_interf self = PInt 0) \<and>
     (priv_e_noise self = PNone \<or> priv_e_noise self = PInt 0) \<and>
     (priv_e_artif self = None \<or> priv_e_artif self = Some (estimated self)))"

section \<open>Facts about the operations\<close>

lemma bindE_Inr [simp]: "bindE (Inr x) f = f x"
  by (simp add: bindE_def)

lemma bindE_Inl [simp]: "bindE (Inl e) f = Inl e"
  by (simp add: bindE_def)

lemma series_sub_zero [simp]: "series_sub xs (PInt 0) = Inr xs"
  by (simp add: map_idI)

lemma scalar_add_series_zero [simp]: "scalar_add_series (PInt 0) xs = Inr xs"
  by (simp add: map_idI)

text \<open>
  With \<open>interference\<close> omitted, or a frame with plain column labels, the initialiser never
  gets past the statement \<open>self.interference = interference[:self.max_len, :]\<close>.
\<close>

lemma init_default_interference:
  "init estimated_source real_source None noise_arg = Inl IndexingError"
  by (simp add: init_def Let_def)

lemma init_plain_interference:
  "init estimated_source real_source (Some (Flat cols)) noise_arg = Inl IndexingError"
  by (simp add: init_def Let_def)

text \<open>
  With hierarchical column labels that statement selects columns, and the initialiser
  goes on to \<open>self.noise = noise[:self.max_len].to_frame()\<close>, which raises for the
  default of \<open>noise\<close> and completes for a Series.
\<close>

lemma init_hierarchical_omitted_noise:
  "init estimated_source real_source (Some (Hierarchical hcols)) None = Inl TypeError"
  by (simp add: init_def Let_def)

lemma init_hierarchical:
  "init estimated_source real_source (Some (Hierarchical hcols)) (Some xs) =
    Inr \<lparr>priv_e_artif = None, priv_e_noise = PNone, priv_e_interf = PNone,
         priv_s_target = PNone, max_len = length estimated_source,
         noise = Flat [take (length estimated_source) xs],
         input_signal = Flat [take (length estimated_source) real_source],
         estimated = estimated_source,
         interference =
           Flat (select_columns hcols (SliceTo (length estimated_source)) SliceAll)\<rparr>"
  by (simp add: init_def Let_def to_frame_def)

lemma init_cases:
  "init estimated_source real_source interference_arg noise_arg = Inl IndexingError \<or>
   init estimated_source real_source interference_arg noise_arg = Inl TypeError \<or>
   (\<exists>self. init estimated_source real_source interference_arg noise_arg = Inr self)"
proof (cases interference_arg)
  case None
  then show ?thesis
    by (simp add: init_default_interference)
next
  case (Some f)
  show ?thesis
  proof (cases f)
    case (Flat cols)
    with Some show ?thesis
      by (simp add: init_plain_interference)
  next
    case (Hierarchical hcols)
    with Some show ?thesis
      by (cases noise_arg) (simp_all add: init_hierarchical_omitted_noise init_hierarchical)
  qed
qed

text \<open>An instance the initialiser returns is fresh.\<close>

lemma init_fresh:
  assumes "init estimated_source real_source interference_arg noise_arg = Inr self"
  shows "fresh self"
proof (cases interference_arg)
  case None
  with assms show ?thesis
    by (simp add: init_default_interference)
next
  case (Some f)
  show ?thesis
  proof (cases f)
    case (Flat cols)
    with Some assms show ?thesis
      by (simp add: init_plain_interference)
  next
    case (Hierarchical hcols)
    with Some assms show ?thesis
      by (cases noise_arg)
        (auto simp: init_hierarchical_omitted_noise init_hierarchical fresh_def)
  qed
qed

subsection \<open>The properties on reachable states\<close>

text \<open>
  In a reachable state the tests \<open>not self._s_target\<close>, \<open>not self._e_interf\<close> and
  \<open>not self._e_noise\<close> always hold, since \<open>None\<close> and \<open>0\<close> are both false: each access
  runs the assignment again.
\<close>

lemma fresh_memo_inv: "fresh self \<Longrightarrow> memo_inv self"
  by (simp add: fresh_def memo_inv_def)

lemma s_target_memo:
  assumes "memo_inv self"
  shows "s_target self = (PInt 0, self\<lparr>priv_s_target := PInt 0\<rparr>)"
  using assms by (auto simp: memo_inv_def s_target_def projection_def)

lemma e_interf_memo:
  assumes "memo_inv self"
  shows "e_interf self = Inr (PInt 0, self\<lparr>priv_s_target := PInt 0, priv_e_interf := PInt 0\<rparr>)"
proof -
  have "py_not (priv_e_interf self)"
    using assms by (auto simp: memo_inv_def)
  then show ?thesis
    by (simp add: e_interf_def s_target_memo [OF assms] projection_def)
qed

lemma e_noise_memo:
  assumes "memo_inv self"
  shows "e_noise self =
    Inr (PInt 0, self\<lparr>priv_s_target := PInt 0, priv_e_interf := PInt 0, priv_e_noise := PInt 0\<rparr>)"
proof -
  let ?s1 = "self\<lparr>priv_s_target := PInt 0, priv_e_interf := PInt 0\<rparr>"
  have n: "py_not (priv_e_noise self)"
    using assms by (auto simp: memo_inv_def)
  have i: "memo_inv ?s1"
    using assms by (simp add: memo_inv_def)
  show ?thesis
    using n by (simp add: e_noise_def e_interf_memo [OF assms] s_target_memo [OF i] projection_def)
qed

lemma e_artif_memo:
  assumes "memo_inv self" and "priv_e_artif self = None"
  shows "e_artif self =
    Inr (estimated self,
         self\<lparr>priv_s_target := PInt 0, priv_e_interf := PInt 0, priv_e_noise := PInt 0,
              priv_e_artif := Some (estimated self)\<rparr>)"
proof -
  have n: "e_noise self =
    Inr (PInt 0, self\<lparr>priv_s_target := PInt 0, priv_e_interf := PInt 0, priv_e_noise := PInt 0\<rparr>)"
    using assms(1) by (rule e_noise_memo)
  show ?thesis
    using assms
    by (simp add: e_artif_def n e_interf_memo s_target_memo memo_inv_def)
qed

lemma e_artif_cached:
  "priv_e_artif self = Some xs \<Longrightarrow> e_artif self = Inl ValueError"
  by (simp add: e_artif_def)

lemma reachable_memo_inv: "reachable self \<Longrightarrow> memo_inv self"
proof (induction rule: reachable.induct)
  case (start self)
  then show ?case by (rule fresh_memo_inv)
next
  case (after_s_target self v self')
  then show ?case
    by (auto simp: s_target_memo memo_inv_def)
next
  case (after_e_interf self v self')
  then show ?case
    by (auto simp: e_interf_memo memo_inv_def)
next
  case (after_e_noise self v self')
  then show ?case
    by (auto simp: e_noise_memo memo_inv_def)
next
  case (after_e_artif self w self')
  show ?case
  proof (cases "priv_e_artif self")
    case None
    with after_e_artif show ?thesis
      by (auto simp: e_artif_memo memo_inv_def)
  next
    case (Some xs)
    with after_e_artif show ?thesis
      by (simp add: e_artif_cached)
  qed
qed

text \<open>
  As long as \<open>_e_artif\<close> is not stored, the four properties can be read in turn and
  their sum is the estimated signal.
\<close>

lemma decomposition_sum_before_e_artif_stored:
  assumes "reachable self" and "priv_e_artif self = None"
  shows "\<exists>t s1 i s2 n s3 a s4.
    s_target self = (t, s1) \<and> e_interf s1 = Inr (i, s2) \<and> e_noise s2 = Inr (n, s3) \<and>
    e_artif s3 = Inr (a, s4) \<and> decomposition_sum t i n a = Inr (estimated self)"
proof -
  have inv: "memo_inv self"
    using assms(1) by (rule reachable_memo_inv)
  let ?s1 = "self\<lparr>priv_s_target := PInt 0\<rparr>"
  let ?s2 = "self\<lparr>priv_s_target := PInt 0, priv_e_interf := PInt 0\<rparr>"
  let ?s3 = "self\<lparr>priv_s_target := PInt 0, priv_e_interf := PInt 0, priv_e_noise := PInt 0\<rparr>"
  let ?s4 = "?s3\<lparr>priv_e_artif := Some (estimated self)\<rparr>"
  have 1: "s_target self = (PInt 0, ?s1)"
    using inv by (rule s_target_memo)
  have 2: "e_interf ?s1 = Inr (PInt 0, ?s2)"
    using inv by (simp add: e_interf_memo memo_inv_def)
  have 3: "e_noise ?s2 = Inr (PInt 0, ?s3)"
    using inv by (simp add: e_noise_memo memo_inv_def)
  have 4: "e_artif ?s3 = Inr (estimated self, ?s4)"
    using inv assms(2) by (simp add: e_artif_memo memo_inv_def)
  have 5: "decomposition_sum (PInt 0) (PInt 0) (PInt 0) (estimated self) = Inr (estimated self)"
    by (simp add: decomposition_sum_def map_idI)
  from 1 2 3 4 5 show ?thesis
    by blast
qed

section \<open>The claims of the specification\<close>

text \<open>
  C1. The specification has the projection return the orthogonal projection of the signal
  onto the column space of the basis, a vector as long as the signal, and the zero vector
  for a basis without columns; the docstring of \<open>_projection\<close> says the same. The code
  returns the integer \<open>0\<close>: for the signal \<open>(3, 4)\<close> and the basis column \<open>(1, 0)\<close>, whose
  orthogonal projection is \<open>(3, 0)\<close>, and for the basis without columns, where a vector
  of two zeros is due.
\<close>

theorem projection_returns_scalar_zero_at_input:
  "projection [3, 4 :: real] [[1, 0 :: real]] = PInt 0 \<and>
   projection [3, 4 :: real] ([] :: frame) = PInt 0"
  by (simp add: projection_def)

text \<open>
  C2. The specification has the four derived quantities sum to the estimated signal on
  every instance. On a fresh instance with the estimated signal \<open>(3, 4)\<close> the first access
  to \<open>e_artif\<close> returns \<open>(3, 4)\<close> and stores it; in the state it leaves, which is
  reachable, \<open>s_target\<close>, \<open>e_interf\<close> and \<open>e_noise\<close> are \<open>0\<close> and \<open>e_artif\<close> raises
  \<open>ValueError\<close>, so the sum \<open>target + interference_error + noise_error + artifact_error\<close>
  cannot be formed.
\<close>

theorem decomposition_identity_fails_once_e_artif_stored:
  "e_artif \<lparr>priv_e_artif = None, priv_e_noise = PNone, priv_e_interf = PNone,
       priv_s_target = PNone, max_len = 2, noise = Flat [[0, 0]],
       input_signal = Flat [[1, 2]], estimated = [3, 4], interference = Flat []\<rparr> =
     Inr ([3, 4],
       \<lparr>priv_e_artif = Some [3, 4], priv_e_noise = PInt 0, priv_e_interf = PInt 0,
        priv_s_target = PInt 0, max_len = 2, noise = Flat [[0, 0]],
        input_signal = Flat [[1, 2]], estimated = [3, 4], interference = Flat []\<rparr>) \<and>
   reachable \<lparr>priv_e_artif = Some [3, 4], priv_e_noise = PInt 0, priv_e_interf = PInt 0,
       priv_s_target = PInt 0, max_len = 2, noise = Flat [[0, 0]],
       input_signal = Flat [[1, 2]], estimated = [3, 4], interference = Flat []\<rparr> \<and>
   (let (t, s1) = s_target \<lparr>priv_e_artif = Some [3, 4], priv_e_noise = PInt 0,
          priv_e_interf = PInt 0, priv_s_target = PInt 0, max_len = 2,
          noise = Flat [[0, 0]], input_signal = Flat [[1, 2]], estimated = [3, 4],
          interference = Flat []\<rparr>
    in case e_interf s1 of
         Inl e \<Rightarrow> False
       | Inr (i, s2) \<Rightarrow>
           (case e_noise s2 of
              Inl e \<Rightarrow> False
            | Inr (n, s3) \<Rightarrow>
                t = PInt 0 \<and> i = PInt 0 \<and> n = PInt 0 \<and> e_artif s3 = Inl ValueError))"
proof -
  let ?s0 = "\<lparr>priv_e_artif = None, priv_e_noise = PNone, priv_e_interf = PNone,
       priv_s_target = PNone, max_len = 2, noise = Flat [[0, 0]],
       input_signal = Flat [[1, 2]], estimated = [3, 4], interference = Flat []\<rparr>"
  let ?s1 = "\<lparr>priv_e_artif = Some [3, 4], priv_e_noise = PInt 0, priv_e_interf = PInt 0,
       priv_s_target = PInt 0, max_len = 2, noise = Flat [[0, 0]],
       input_signal = Flat [[1, 2]], estimated = [3, 4], interference = Flat []\<rparr>"
  have first: "e_artif ?s0 = Inr ([3, 4], ?s1)"
    by (simp add: e_artif_memo memo_inv_def)
  have "reachable ?s0"
    by (rule reachable.start) (simp add: fresh_def)
  then have reach: "reachable ?s1"
    using first by (rule reachable.after_e_artif)
  have inv: "memo_inv ?s1"
    by (simp add: memo_inv_def)
  have again: "let (t, s1) = s_target ?s1
    in case e_interf s1 of
         Inl e \<Rightarrow> False
       | Inr (i, s2) \<Rightarrow>
           (case e_noise s2 of
              Inl e \<Rightarrow> False
            | Inr (n, s3) \<Rightarrow>
                t = PInt 0 \<and> i = PInt 0 \<and> n = PInt 0 \<and> e_artif s3 = Inl ValueError)"
    by (simp add: s_target_memo [OF inv] e_interf_memo e_noise_memo e_artif_cached
        memo_inv_def)
  from first reach again show ?thesis
    by blast
qed



text \<open>
  C4, as the specification states it, is false: with an estimated signal of three samples
  and a \<open>real_source\<close> of one, construction does not raise \<open>DimensionError\<close>.
\<close>

theorem short_real_source_no_dimension_error:
  "length [1 :: real] < length [1, 2, 3 :: real] \<and>
   init [1, 2, 3] [1] (Some (Flat [[0, 0, 0]])) (Some [0, 0, 0]) \<noteq> Inl DimensionError"
  by (simp add: init_plain_interference)

text \<open>
  C4, amended. Construction makes no check of lengths and never raises \<open>DimensionError\<close>,
  whatever the lengths of its inputs; \<open>real_source[:M]\<close> with \<open>M = len(estimated)\<close> is the
  first \<open>M\<close> samples of \<open>real_source\<close>, or all of them when there are fewer.
\<close>

theorem construction_never_raises_dimension_error:
  "init estimated_source real_source interference_arg noise_arg \<noteq> Inl DimensionError \<and>
   series_getitem real_source (SliceTo (length estimated_source)) =
     Inr (take (length estimated_source) real_source)"
  using init_cases [of estimated_source real_source interference_arg noise_arg]
  by auto

text \<open>
  C5. The specification, and the docstring of the class, give every instance the
  accessors \<open>SDR\<close>, \<open>SIR\<close>, \<open>SNR\<close> and \<open>SAR\<close>. The class defines none of them, so reading
  any of the four raises \<open>AttributeError\<close>.
\<close>

theorem metric_accessors_absent:
  "\<not> has_attribute ''SDR'' \<and> \<not> has_attribute ''SIR'' \<and>
   \<not> has_attribute ''SNR'' \<and> \<not> has_attribute ''SAR''"
  by (simp add: has_attribute_def instance_attributes_def class_attributes_def)

text \<open>
  C6. The specification has every derived quantity computed once and returned from the
  cache afterwards. On a fresh instance with the estimated signal \<open>(3, 4)\<close> the first
  access to \<open>e_artif\<close> returns \<open>(3, 4)\<close> and the second raises \<open>ValueError\<close>; and after the
  first access to \<open>s_target\<close> the test \<open>not self._s_target\<close> still holds, so the next
  access calls \<open>_projection\<close> again.
\<close>

theorem second_access_not_cached:
  "(case e_artif \<lparr>priv_e_artif = None, priv_e_noise = PNone, priv_e_interf = PNone,
       priv_s_target = PNone, max_len = 2, noise = Flat [[0, 0]], input_signal = Flat [[1, 2]],
       estimated = [3, 4], interference = Flat []\<rparr> of
      Inl e \<Rightarrow> False
    | Inr (a, self1) \<Rightarrow> a = [3, 4] \<and> e_artif self1 = Inl ValueError) \<and>
   py_not (priv_s_target (snd (s_target \<lparr>priv_e_artif = None, priv_e_noise = PNone,
       priv_e_interf = PNone, priv_s_target = PNone, max_len = 2, noise = Flat [[0, 0]],
       input_signal = Flat [[1, 2]], estimated = [3, 4], interference = Flat []\<rparr>)))"
  by (simp add: e_artif_memo s_target_memo memo_inv_def e_artif_cached)

text \<open>
  C7. The specification has \<open>interference_error\<close> be the zero vector of length \<open>M\<close> when
  the interference has no columns. With the estimated signal \<open>(3, 4)\<close>, the real source
  \<open>(1, 2)\<close> and the noise \<open>(0, 0)\<close>, construction raises, with \<open>interference\<close> omitted and
  with a frame without columns; and on the instance those arguments were to give,
  \<open>e_interf\<close> is the integer \<open>0\<close>.
\<close>

theorem zero_column_interference_at_input:
  "init [3, 4] [1, 2] None (Some [0, 0]) = Inl IndexingError \<and>
   init [3, 4] [1, 2] (Some (Flat [])) (Some [0, 0]) = Inl IndexingError \<and>
   map_sum id fst (e_interf \<lparr>priv_e_artif = None, priv_e_noise = PNone,
       priv_e_interf = PNone, priv_s_target = PNone, max_len = 2, noise = Flat [[0, 0]],
       input_signal = Flat [[1, 2]], estimated = [3, 4], interference = Flat []\<rparr>) = Inr (PInt 0)"
  by (simp add: init_default_interference init_plain_interference e_interf_memo memo_inv_def)

text \<open>
  C8. The specification has construction succeed when \<open>noise\<close> is omitted. With the
  estimated signal \<open>(3, 4)\<close>, the real source \<open>(1, 2)\<close>, one interference column \<open>(5, 6)\<close>
  and no \<open>noise\<close>, construction raises; and \<open>noise[:self.max_len]\<close> on the default of
  \<open>noise\<close> raises \<open>TypeError\<close> by itself.
\<close>

theorem omitted_noise_at_input:
  "init [3, 4] [1, 2] (Some (Flat [[5, 6]])) None = Inl IndexingError \<and>
   noise_getitem SeriesClass (SliceTo (length [3, 4 :: real])) = Inl TypeError"
  by (simp add: init_plain_interference)

text \<open>
  C9. The specification has construction truncate every input to the length of the
  estimated signal. With the estimated signal \<open>(3, 4)\<close> and a real source, an interference
  column and a noise of three samples each, construction raises instead.
\<close>

theorem truncation_at_input:
  "init [3, 4] [1, 2, 9] (Some (Flat [[5, 6, 7]])) (Some [0, 0, 0]) = Inl IndexingError"
  by (simp add: init_plain_interference)

text \<open>
  C10. \<open>_projection\<close> returns the integer \<open>0\<close> for every signal and subspace; and in every
  state an instance can reach, \<open>s_target\<close>, \<open>e_interf\<close> and \<open>e_noise\<close> evaluate to \<open>0\<close>, and
  \<open>e_artif\<close>, when it can be evaluated, is the estimated signal (it is not evaluated only
  when \<open>_e_artif\<close> is already stored, where it raises \<open>ValueError\<close>).
\<close>

theorem projection_zero_and_properties:
  "projection signal subsp = PInt 0 \<and>
   (reachable self \<longrightarrow>
      fst (s_target self) = PInt 0 \<and>
      map_sum id fst (e_interf self) = Inr (PInt 0) \<and>
      map_sum id fst (e_noise self) = Inr (PInt 0) \<and>
      (case e_artif self of
         Inl e \<Rightarrow> e = ValueError \<and> priv_e_artif self \<noteq> None
       | Inr (a, self') \<Rightarrow> a = estimated self))"
proof (intro conjI impI)
  show "projection signal subsp = PInt 0"
    by (simp add: projection_def)
next
  assume "reachable self"
  then have inv: "memo_inv self"
    by (rule reachable_memo_inv)
  show "fst (s_target self) = PInt 0"
    by (simp add: s_target_memo [OF inv])
  show "map_sum id fst (e_interf self) = Inr (PInt 0)"
    by (simp add: e_interf_memo [OF inv])
  show "map_sum id fst (e_noise self) = Inr (PInt 0)"
    by (simp add: e_noise_memo [OF inv])
  show "case e_artif self of
         Inl e \<Rightarrow> e = ValueError \<and> priv_e_artif self \<noteq> None
       | Inr (a, self') \<Rightarrow> a = estimated self"
  proof (cases "priv_e_artif self")
    case None
    then show ?thesis
      by (simp add: e_artif_memo [OF inv])
  next
    case (Some xs)
    then show ?thesis
      by (simp add: e_artif_cached)
  qed
qed

theorem projection_zero_and_properties_witness:
  "reachable \<lparr>priv_e_artif = None, priv_e_noise = PNone, priv_e_interf = PNone,
       priv_s_target = PNone, max_len = 2, noise = Flat [[0, 0]], input_signal = Flat [[1, 2]],
       estimated = [3, 4], interference = Flat [[5, 6]]\<rparr> \<and>
   projection [3, 4 :: real] [[1, 2 :: real]] = PInt 0 \<and>
   fst (s_target \<lparr>priv_e_artif = None, priv_e_noise = PNone, priv_e_interf = PNone,
       priv_s_target = PNone, max_len = 2, noise = Flat [[0, 0]], input_signal = Flat [[1, 2]],
       estimated = [3, 4], interference = Flat [[5, 6]]\<rparr>) = PInt 0 \<and>
   map_sum id fst (e_interf \<lparr>priv_e_artif = None, priv_e_noise = PNone, priv_e_interf = PNone,
       priv_s_target = PNone, max_len = 2, noise = Flat [[0, 0]], input_signal = Flat [[1, 2]],
       estimated = [3, 4], interference = Flat [[5, 6]]\<rparr>) = Inr (PInt 0) \<and>
   map_sum id fst (e_noise \<lparr>priv_e_artif = None, priv_e_noise = PNone, priv_e_interf = PNone,
       priv_s_target = PNone, max_len = 2, noise = Flat [[0, 0]], input_signal = Flat [[1, 2]],
       estimated = [3, 4], interference = Flat [[5, 6]]\<rparr>) = Inr (PInt 0) \<and>
   map_sum id fst (e_artif \<lparr>priv_e_artif = None, priv_e_noise = PNone, priv_e_interf = PNone,
       priv_s_target = PNone, max_len = 2, noise = Flat [[0, 0]], input_signal = Flat [[1, 2]],
       estimated = [3, 4], interference = Flat [[5, 6]]\<rparr>) = Inr [3, 4]"
proof -
  let ?self = "\<lparr>priv_e_artif = None, priv_e_noise = PNone, priv_e_interf = PNone,
       priv_s_target = PNone, max_len = 2, noise = Flat [[0, 0]], input_signal = Flat [[1, 2]],
       estimated = [3, 4], interference = Flat [[5, 6]]\<rparr>"
  have r: "reachable ?self"
    by (rule reachable.start) (simp add: fresh_def)
  have a: "map_sum id fst (e_artif ?self) = Inr [3, 4]"
    using projection_zero_and_properties [of "[3, 4 :: real]" "[[1, 2 :: real]]" ?self] r
    by (auto split: sum.splits)
  show ?thesis
    using projection_zero_and_properties [of "[3, 4 :: real]" "[[1, 2 :: real]]" ?self] r a
    by simp
qed

end
